theory Spec2Isabelle
  imports Complex_Main
begin

section \<open>JavaScript numbers and strings\<close>

text \<open>
  The engine computes with JavaScript numbers. A number is modelled as an exact real, as
  \<open>NaN\<close>, or as positive infinity. The rounding of IEEE doubles is left out: the
  engine works on counts, on scores between 0 and 100 and on prices with a few decimals,
  where a comparison with one of its thresholds comes out the same in doubles as in the
  reals; only a score that falls exactly on half an integer in the reals may round the
  other way in doubles, and no property below depends on such a tie. A price of more
  digits than a double can hold is infinite in JavaScript and a very large real here,
  which every branch of the engine treats alike. No operand of the engine is ever
  negative, so a quotient by zero is \<open>PosInf\<close> or \<open>NaN\<close>, never negative
  infinity.
\<close>

datatype jsnum = NaN | PosInf | Fin real

fun js_le :: "jsnum \<Rightarrow> jsnum \<Rightarrow> bool" where
  "js_le NaN _ = False"
| "js_le _ NaN = False"
| "js_le PosInf PosInf = True"
| "js_le PosInf (Fin y) = False"
| "js_le (Fin x) PosInf = True"
| "js_le (Fin x) (Fin y) = (x \<le> y)"

fun js_lt :: "jsnum \<Rightarrow> jsnum \<Rightarrow> bool" where
  "js_lt NaN _ = False"
| "js_lt _ NaN = False"
| "js_lt PosInf _ = False"
| "js_lt (Fin x) PosInf = True"
| "js_lt (Fin x) (Fin y) = (x < y)"

definition js_ge :: "jsnum \<Rightarrow> jsnum \<Rightarrow> bool" where
  "js_ge a b = js_le b a"

definition js_gt :: "jsnum \<Rightarrow> jsnum \<Rightarrow> bool" where
  "js_gt a b = js_lt b a"

fun js_add :: "jsnum \<Rightarrow> jsnum \<Rightarrow> jsnum" where
  "js_add NaN _ = NaN"
| "js_add _ NaN = NaN"
| "js_add PosInf _ = PosInf"
| "js_add _ PosInf = PosInf"
| "js_add (Fin x) (Fin y) = Fin (x + y)"

text \<open>Product and quotient of operands that are not negative.\<close>

fun js_mul :: "jsnum \<Rightarrow> jsnum \<Rightarrow> jsnum" where
  "js_mul NaN _ = NaN"
| "js_mul _ NaN = NaN"
| "js_mul PosInf PosInf = PosInf"
| "js_mul PosInf (Fin y) = (if y = 0 then NaN else PosInf)"
| "js_mul (Fin x) PosInf = (if x = 0 then NaN else PosInf)"
| "js_mul (Fin x) (Fin y) = Fin (x * y)"

fun js_div :: "jsnum \<Rightarrow> jsnum \<Rightarrow> jsnum" where
  "js_div NaN _ = NaN"
| "js_div _ NaN = NaN"
| "js_div PosInf PosInf = NaN"
| "js_div PosInf (Fin y) = PosInf"
| "js_div (Fin x) PosInf = Fin 0"
| "js_div (Fin x) (Fin y) = (if y = 0 then (if x = 0 then NaN else PosInf) else Fin (x / y))"

text \<open>\<open>Math.max\<close> and \<open>Math.min\<close> return \<open>NaN\<close> as soon as one argument is \<open>NaN\<close>.\<close>

fun Math_max :: "jsnum \<Rightarrow> jsnum \<Rightarrow> jsnum" where
  "Math_max NaN _ = NaN"
| "Math_max _ NaN = NaN"
| "Math_max PosInf _ = PosInf"
| "Math_max _ PosInf = PosInf"
| "Math_max (Fin x) (Fin y) = Fin (max x y)"

fun Math_min :: "jsnum \<Rightarrow> jsnum \<Rightarrow> jsnum" where
  "Math_min NaN _ = NaN"
| "Math_min _ NaN = NaN"
| "Math_min PosInf b = b"
| "Math_min a PosInf = a"
| "Math_min (Fin x) (Fin y) = Fin (min x y)"

text \<open>\<open>Math.round\<close> rounds to the nearest integer, a half towards plus infinity.\<close>

definition round_half_up :: "real \<Rightarrow> int" where
  "round_half_up x = \<lfloor>x + 1 / 2\<rfloor>"

fun Math_round :: "jsnum \<Rightarrow> jsnum" where
  "Math_round NaN = NaN"
| "Math_round PosInf = PosInf"
| "Math_round (Fin x) = Fin (of_int (round_half_up x))"

text \<open>
  Strings are lists of characters. \<open>toLowerCase\<close> lowers the ASCII letters, which is
  what JavaScript does on ASCII text.
\<close>

definition lower_char :: "char \<Rightarrow> char" where
  "lower_char c =
     (case map_of (zip ''ABCDEFGHIJKLMNOPQRSTUVWXYZ'' ''abcdefghijklmnopqrstuvwxyz'') c of
        Some d \<Rightarrow> d
      | None \<Rightarrow> c)"

definition toLowerCase :: "string \<Rightarrow> string" where
  "toLowerCase s = map lower_char s"

fun starts_with :: "string \<Rightarrow> string \<Rightarrow> bool" where
  "starts_with s [] = True"
| "starts_with [] (p # ps) = False"
| "starts_with (c # cs) (p # ps) = (c = p \<and> starts_with cs ps)"

text \<open>\<open>String.prototype.includes\<close>: the second string occurs inside the first.\<close>

fun str_includes :: "string \<Rightarrow> string \<Rightarrow> bool" where
  "str_includes [] sub = (sub = [])"
| "str_includes (c # cs) sub = (starts_with (c # cs) sub \<or> str_includes cs sub)"

text \<open>\<open>Array.prototype.some\<close> and \<open>Array.prototype.includes\<close>.\<close>

definition some :: "'a list \<Rightarrow> ('a \<Rightarrow> bool) \<Rightarrow> bool" where
  "some xs P = list_ex P xs"

definition arr_includes :: "string list \<Rightarrow> string \<Rightarrow> bool" where
  "arr_includes xs x = (x \<in> set xs)"

definition is_digit :: "char \<Rightarrow> bool" where
  "is_digit c = (c \<in> set ''0123456789'')"

definition digit_val :: "char \<Rightarrow> nat" where
  "digit_val c = length (takeWhile (\<lambda>d. d \<noteq> c) ''0123456789'')"

definition dec_val :: "string \<Rightarrow> nat" where
  "dec_val ds = foldl (\<lambda>a c. 10 * a + digit_val c) 0 ds"

section \<open>Price parsing\<close>

text \<open>
  The first match of the regular expression \<open>/[\d,]+\.?\d*/\<close>: skip to the first
  digit or comma, take the longest run of digits and commas, then a dot if one follows,
  then the digits after it. Nothing after the run is compulsory, so the greedy match
  never backtracks.
\<close>

definition digit_or_comma :: "char \<Rightarrow> bool" where
  "digit_or_comma c = (is_digit c \<or> c = CHR '','')"

fun price_match :: "string \<Rightarrow> string option" where
  "price_match [] = None"
| "price_match (c # cs) =
     (if digit_or_comma c then
        Some (let run = takeWhile digit_or_comma (c # cs);
                  rest = dropWhile digit_or_comma (c # cs)
              in case rest of
                   [] \<Rightarrow> run
                 | d # r \<Rightarrow> if d = CHR ''.'' then run @ [d] @ takeWhile is_digit r else run)
      else price_match cs)"

definition remove_commas :: "string \<Rightarrow> string" where
  "remove_commas s = filter (\<lambda>c. c \<noteq> CHR '','') s"

text \<open>
  \<open>parseFloat\<close> on a string of digits with at most one dot, which is all that the
  match with its commas removed can be: the longest prefix that is a decimal literal,
  \<open>NaN\<close> when that prefix has no digit at all.
\<close>

definition parseFloat :: "string \<Rightarrow> jsnum" where
  "parseFloat s =
     (let ip = takeWhile is_digit s;
          rest = dropWhile is_digit s;
          fp = (case rest of
                  [] \<Rightarrow> []
                | d # r \<Rightarrow> if d = CHR ''.'' then takeWhile is_digit r else [])
      in if ip = [] \<and> fp = [] then NaN
         else Fin (real (dec_val ip) + real (dec_val fp) / 10 ^ length fp))"

definition extractNumericPrice :: "string \<Rightarrow> jsnum option" where
  "extractNumericPrice price =
     (case price_match price of
        Some m \<Rightarrow> Some (parseFloat (remove_commas m))
      | None \<Rightarrow> None)"

section \<open>Price analysis\<close>

datatype value_assessment = Excellent | Good | Fair | Poor | Unknown_value

datatype market_comparison = Below_market | Market_rate | Above_market | Premium

record PriceAnalysis =
  price_range :: string
  value_assessment :: value_assessment
  price_vs_ingredients :: jsnum
  market_comparison :: market_comparison

definition assessPriceReasonableness :: "string \<Rightarrow> int" where
  "assessPriceReasonableness price =
     (case extractNumericPrice price of
        None \<Rightarrow> 50
      | Some numericPrice \<Rightarrow>
          if js_le numericPrice (Fin 15) then 95
          else if js_le numericPrice (Fin 30) then 85
          else if js_le numericPrice (Fin 60) then 70
          else if js_le numericPrice (Fin 100) then 50
          else 30)"

definition assessValueForMoney :: "jsnum \<Rightarrow> int \<Rightarrow> value_assessment" where
  "assessValueForMoney price ingredientQuality =
     (let val = js_div (Fin (of_int ingredientQuality)) (js_div price (Fin 10))
      in if js_ge val (Fin 8) then Excellent
         else if js_ge val (Fin 6) then Good
         else if js_ge val (Fin 4) then Fair
         else Poor)"

definition compareToMarket :: "jsnum \<Rightarrow> market_comparison" where
  "compareToMarket price =
     (if js_le price (Fin 20) then Below_market
      else if js_le price (Fin 50) then Market_rate
      else if js_le price (Fin 100) then Above_market
      else Premium)"

definition calculatePriceIngredientRatio :: "jsnum \<Rightarrow> int \<Rightarrow> jsnum" where
  "calculatePriceIngredientRatio price qualityScore =
     (let expectedPrice = Fin (of_int qualityScore * (8 / 10));
          actualVsExpected = js_div expectedPrice (Math_max price (Fin 1))
      in Math_round (Math_max (Fin 0) (Math_min (Fin 100) (js_mul actualVsExpected (Fin 100)))))"

definition getPriceRange :: "jsnum \<Rightarrow> string" where
  "getPriceRange price =
     (if js_le price (Fin 15) then ''Budget ($0-$15)''
      else if js_le price (Fin 30) then ''Affordable ($15-$30)''
      else if js_le price (Fin 60) then ''Mid-range ($30-$60)''
      else if js_le price (Fin 100) then ''Premium ($60-$100)''
      else ''Luxury ($100+)'')"

definition analyzePrice :: "string \<Rightarrow> int \<Rightarrow> PriceAnalysis" where
  "analyzePrice price ingredientQualityScore =
     (case extractNumericPrice price of
        None \<Rightarrow>
          \<lparr>price_range = price, value_assessment = Unknown_value,
           price_vs_ingredients = Fin 50, market_comparison = Market_rate\<rparr>
      | Some numericPrice \<Rightarrow>
          \<lparr>price_range = getPriceRange numericPrice,
           value_assessment = assessValueForMoney numericPrice ingredientQualityScore,
           price_vs_ingredients = calculatePriceIngredientRatio numericPrice ingredientQualityScore,
           market_comparison = compareToMarket numericPrice\<rparr>)"

section \<open>Input and output records\<close>

text \<open>
  Of the scraped records only the fields that the engine reads are kept. A count that the
  scrapers fill with the length of an array is a natural number; a nullable counter is an
  option.
\<close>

record Ingredients =
  raw :: string
  parsed :: "string list"

record ProductData =
  name :: string
  price :: string
  ingredients :: Ingredients
  platform :: string

record TikTokVideoData =
  username :: string
  caption :: string
  hashtags :: "string list"
  mentions :: "string list"
  likes :: "nat option"
  views :: "nat option"
  comments :: "nat option"
  shares :: "nat option"
  affiliate_codes :: "string list"
  promotional_keywords :: "string list"
  paid_promotion_detected :: bool
  video_url :: string
  posting_date :: "string option"

record SentimentBreakdown =
  positive :: nat
  negative :: nat
  neutral :: nat

record ReviewSummary =
  total_reviews :: nat
  sentiment_breakdown :: SentimentBreakdown
  common_negatives :: "string list"

text \<open>
  The ingredient database is a field of type \<open>any\<close>: \<open>null\<close> (here \<open>None\<close>)
  until the asynchronous load started by the constructor has finished, then whatever the
  JSON file held, or the built-in data when the file could not be read. A list of the
  database is \<open>None\<close> when the loaded value has no such array; calling \<open>some\<close>
  on it is then a \<open>TypeError\<close>.
\<close>

datatype error = TypeError

record IngredientsDatabase =
  db_beneficial :: "string list option"
  db_potentially_harmful :: "string list option"
  db_common_irritants :: "string list option"

definition getBuiltInIngredientData :: IngredientsDatabase where
  "getBuiltInIngredientData =
     \<lparr>db_beneficial = Some
        [''niacinamide'', ''hyaluronic acid'', ''vitamin c'', ''retinol'', ''ceramide'',
         ''glycerin'', ''salicylic acid'', ''lactic acid'', ''peptides'', ''squalane'',
         ''vitamin e'', ''allantoin'', ''panthenol'', ''zinc oxide'', ''titanium dioxide''],
      db_potentially_harmful = Some
        [''alcohol denat'', ''sodium lauryl sulfate'', ''formaldehyde'', ''parabens'',
         ''phthalates'', ''mineral oil'', ''petrolatum'', ''artificial fragrance''],
      db_common_irritants = Some
        [''fragrance'', ''essential oils'', ''menthol'', ''eucalyptus'', ''lemon extract'']\<rparr>"

datatype brand_recognition = Well_known | Emerging | Unknown_brand

datatype influencer_credibility = Cred_high | Cred_medium | Cred_low | Cred_unknown

datatype level = High | Medium | Low

datatype verdict = Authentic | Suspicious | Likely_sponsored

record ProductAnalysis =
  product_name :: string
  pa_platform :: string
  availability_score :: int
  brand_recognition :: brand_recognition
  price_reasonableness :: int

record SocialAnalysis =
  has_social_data :: bool
  promotional_detected :: bool
  affiliate_codes_found :: nat
  hashtag_authenticity :: int
  influencer_credibility :: influencer_credibility
  sponsored_content_probability :: int

record OverallIngredientAnalysis =
  total_ingredients :: nat
  beneficial_ingredients :: "string list"
  potentially_harmful :: "string list"
  ingredient_quality_score :: int
  ingredient_authenticity :: int

record ReviewAnalysis =
  review_count :: nat
  sentiment_distribution :: SentimentBreakdown
  review_authenticity_score :: int
  common_concerns :: "string list"
  review_credibility :: level

record RealityCheckResult =
  reality_score :: jsnum
  confidence_level :: level
  overall_verdict :: verdict
  product_analysis :: ProductAnalysis
  social_analysis :: SocialAnalysis
  ingredient_analysis :: OverallIngredientAnalysis
  review_analysis :: ReviewAnalysis
  price_analysis :: PriceAnalysis
  red_flags :: "string list"
  green_flags :: "string list"
  recommendations :: "string list"
  analysis_timestamp :: string
  data_sources :: "string list"

section \<open>The analyses\<close>

definition wellKnownBrands :: "string list" where
  "wellKnownBrands =
     [''cerave'', ''the ordinary'', ''neutrogena'', ''olay'', ''clinique'', ''l'oreal'',
      ''nivea'', ''aveeno'', ''eucerin'', ''la roche posay'', ''vichy'', ''skinceuticals'',
      ''drunk elephant'', ''paula's choice'', ''cosrx'', ''innisfree'', ''laneige'']"

definition analyzeProduct_Internal :: "ProductData \<Rightarrow> ProductAnalysis" where
  "analyzeProduct_Internal productData =
     (let productNameLower = toLowerCase (name productData);
          brandRecognition =
            (if some wellKnownBrands (\<lambda>brand. str_includes productNameLower brand)
             then Well_known else Unknown_brand);
          availabilityScore =
            (if platform productData = ''amazon'' then 90
             else if platform productData = ''sephora'' then 85
             else if platform productData = ''oliveyoung'' then 70
             else if platform productData = ''yesstyle'' then 65
             else 50);
          priceReasonableness = assessPriceReasonableness (price productData)
      in \<lparr>product_name = name productData,
          pa_platform = platform productData,
          availability_score = availabilityScore,
          brand_recognition = brandRecognition,
          price_reasonableness = priceReasonableness\<rparr>)"

definition spammy :: "string list" where
  "spammy = [''ad'', ''sponsored'', ''promo'', ''affiliate'', ''linkinbio'']"

definition organic :: "string list" where
  "organic = [''skincare'', ''beauty'', ''selfcare'', ''routine'', ''review'']"

definition calculateHashtagAuthenticity :: "string list \<Rightarrow> int" where
  "calculateHashtagAuthenticity tags =
     (if length tags = 0 then 75
      else
        let spammyCount =
              length (filter (\<lambda>tag. some spammy (\<lambda>spam. str_includes (toLowerCase tag) spam)) tags);
            organicCount =
              length (filter (\<lambda>tag. some organic (\<lambda>org. str_includes (toLowerCase tag) org)) tags)
        in if spammyCount > organicCount then 30
           else if organicCount > spammyCount then 85
           else 60)"

text \<open>
  \<open>likes && views\<close> holds when both counters are present and not zero; the quotient
  is then taken by a number that is not zero.
\<close>

definition assessInfluencerCredibility :: "TikTokVideoData \<Rightarrow> influencer_credibility" where
  "assessInfluencerCredibility socialData =
     (case (likes socialData, views socialData) of
        (Some l, Some v) \<Rightarrow>
          if l \<noteq> 0 \<and> v \<noteq> 0 then
            (let engagementRate = real l / real v
             in if engagementRate > 5 / 100 then Cred_high
                else if engagementRate > 2 / 100 then Cred_medium
                else Cred_low)
          else Cred_unknown
      | _ \<Rightarrow> Cred_unknown)"

definition sponsoredTags :: "string list" where
  "sponsoredTags = [''ad'', ''sponsored'', ''promo'', ''affiliate'', ''gifted'']"

definition calculateSponsoredProbability :: "TikTokVideoData \<Rightarrow> int" where
  "calculateSponsoredProbability socialData =
     (let p1 = (if paid_promotion_detected socialData then 40 else 0);
          p2 = (if length (affiliate_codes socialData) > 0 then p1 + 30 else p1);
          p3 = (if length (promotional_keywords socialData) > 0 then p2 + 20 else p2);
          sponsoredHashtags =
            filter (\<lambda>tag. arr_includes sponsoredTags (toLowerCase tag)) (hashtags socialData);
          probability = p3 + int (length sponsoredHashtags) * 10
      in min 100 probability)"

definition analyzeSocialMedia :: "TikTokVideoData option \<Rightarrow> SocialAnalysis" where
  "analyzeSocialMedia socialData =
     (case socialData of
        None \<Rightarrow>
          \<lparr>has_social_data = False, promotional_detected = False, affiliate_codes_found = 0,
           hashtag_authenticity = 50, influencer_credibility = Cred_unknown,
           sponsored_content_probability = 0\<rparr>
      | Some sd \<Rightarrow>
          \<lparr>has_social_data = True,
           promotional_detected = paid_promotion_detected sd,
           affiliate_codes_found = length (affiliate_codes sd),
           hashtag_authenticity = calculateHashtagAuthenticity (hashtags sd),
           influencer_credibility = assessInfluencerCredibility sd,
           sponsored_content_probability = calculateSponsoredProbability sd\<rparr>)"

text \<open>
  The two lookups call \<open>some\<close> on a list of the database once for every ingredient, so
  a missing list raises as soon as there is an ingredient to look at.
\<close>

definition findBeneficialIngredients ::
    "IngredientsDatabase option \<Rightarrow> string list \<Rightarrow> error + string list" where
  "findBeneficialIngredients db ings =
     (case db of
        None \<Rightarrow> Inr []
      | Some d \<Rightarrow>
          (case db_beneficial d of
             None \<Rightarrow> if ings = [] then Inr [] else Inl TypeError
           | Some bs \<Rightarrow>
               Inr (filter (\<lambda>ingredient.
                      some bs (\<lambda>b. str_includes (toLowerCase ingredient) (toLowerCase b))) ings)))"

definition findHarmfulIngredients ::
    "IngredientsDatabase option \<Rightarrow> string list \<Rightarrow> error + string list" where
  "findHarmfulIngredients db ings =
     (case db of
        None \<Rightarrow> Inr []
      | Some d \<Rightarrow>
          (case db_potentially_harmful d of
             None \<Rightarrow> if ings = [] then Inr [] else Inl TypeError
           | Some hs \<Rightarrow>
               Inr (filter (\<lambda>ingredient.
                      some hs (\<lambda>h. str_includes (toLowerCase ingredient) (toLowerCase h))) ings)))"

definition calculateIngredientQualityScore :: "nat \<Rightarrow> nat \<Rightarrow> nat \<Rightarrow> int" where
  "calculateIngredientQualityScore beneficial harmful totalN =
     (if totalN = 0 then 0
      else
        let beneficialRatio = real beneficial / real totalN;
            harmfulRatio = real harmful / real totalN;
            score = beneficialRatio * 70 + (1 - harmfulRatio) * 30;
            score' = (if beneficial > 0 \<and> harmful = 0 then score + 10 else score)
        in round_half_up (max 0 (min 100 score')))"

definition preservatives :: "string list" where
  "preservatives = [''phenoxyethanol'', ''ethylhexylglycerin'', ''benzyl alcohol'']"

text \<open>
  \<open>parsed[0] && ...\<close>: the first ingredient counts when the list has one and it is not
  the empty string.
\<close>

definition calculateIngredientAuthenticity :: "Ingredients \<Rightarrow> int" where
  "calculateIngredientAuthenticity ings =
     (let s0 = (75 :: int);
          s1 = (if length (parsed ings) \<ge> 5 \<and> length (parsed ings) \<le> 50 then s0 + 10 else s0);
          s2 = (case parsed ings of
                  [] \<Rightarrow> s1
                | first # _ \<Rightarrow>
                    if first \<noteq> [] \<and> arr_includes [''water'', ''aqua''] (toLowerCase first)
                    then s1 + 10 else s1);
          hasPreservatives =
            some (parsed ings) (\<lambda>ing. arr_includes preservatives (toLowerCase ing));
          s3 = (if hasPreservatives then s2 + 5 else s2)
      in round_half_up (max 0 (min 100 (of_int s3))))"

definition analyzeIngredients ::
    "IngredientsDatabase option \<Rightarrow> Ingredients \<Rightarrow> error + OverallIngredientAnalysis" where
  "analyzeIngredients db ings =
     (if length (parsed ings) = 0 then
        Inr \<lparr>total_ingredients = 0, beneficial_ingredients = [], potentially_harmful = [],
             ingredient_quality_score = 0, ingredient_authenticity = 50\<rparr>
      else
        case findBeneficialIngredients db (parsed ings) of
          Inl e \<Rightarrow> Inl e
        | Inr beneficial \<Rightarrow>
            (case findHarmfulIngredients db (parsed ings) of
               Inl e \<Rightarrow> Inl e
             | Inr harmful \<Rightarrow>
                 Inr \<lparr>total_ingredients = length (parsed ings),
                      beneficial_ingredients = beneficial,
                      potentially_harmful = harmful,
                      ingredient_quality_score =
                        calculateIngredientQualityScore (length beneficial) (length harmful)
                          (length (parsed ings)),
                      ingredient_authenticity = calculateIngredientAuthenticity ings\<rparr>))"

definition calculateReviewAuthenticity :: "SentimentBreakdown \<Rightarrow> int" where
  "calculateReviewAuthenticity sentimentBreakdown =
     (let total = positive sentimentBreakdown + negative sentimentBreakdown
                    + neutral sentimentBreakdown
      in if total = 0 then 50
         else
           let positiveRatio = real (positive sentimentBreakdown) / real total;
               negativeRatio = real (negative sentimentBreakdown) / real total
           in if positiveRatio > 9 / 10 \<or> negativeRatio > 8 / 10 then 30
              else if positiveRatio \<ge> 4 / 10 \<and> positiveRatio \<le> 8 / 10
                      \<and> negativeRatio \<ge> 1 / 10 \<and> negativeRatio \<le> 4 / 10 then 85
              else 60)"

definition assessReviewCredibility :: "ReviewSummary \<Rightarrow> int \<Rightarrow> level" where
  "assessReviewCredibility reviewSummary authenticityScore =
     (if total_reviews reviewSummary \<ge> 20 \<and> authenticityScore \<ge> 70 then High
      else if total_reviews reviewSummary \<ge> 5 \<and> authenticityScore \<ge> 50 then Medium
      else Low)"

definition noReviews :: ReviewAnalysis where
  "noReviews =
     \<lparr>review_count = 0,
      sentiment_distribution = \<lparr>positive = 0, negative = 0, neutral = 0\<rparr>,
      review_authenticity_score = 50,
      common_concerns = [],
      review_credibility = Low\<rparr>"

definition analyzeReviews :: "ReviewSummary option \<Rightarrow> ReviewAnalysis" where
  "analyzeReviews reviewSummary =
     (case reviewSummary of
        None \<Rightarrow> noReviews
      | Some rs \<Rightarrow>
          if total_reviews rs = 0 then noReviews
          else
            let authenticityScore = calculateReviewAuthenticity (sentiment_breakdown rs);
                credibility = assessReviewCredibility rs authenticityScore
            in \<lparr>review_count = total_reviews rs,
                sentiment_distribution = sentiment_breakdown rs,
                review_authenticity_score = authenticityScore,
                common_concerns = common_negatives rs,
                review_credibility = credibility\<rparr>)"

section \<open>The overall score, the verdict and the insights\<close>

text \<open>The five component scores of \<open>calculateOverallScore\<close>, one definition each.\<close>

definition productScore :: "ProductAnalysis \<Rightarrow> real" where
  "productScore product =
     (of_int (availability_score product) + of_int (price_reasonableness product)) / 2"

definition socialScore :: "SocialAnalysis \<Rightarrow> real" where
  "socialScore social =
     (if has_social_data social
      then (100 - of_int (sponsored_content_probability social)
              + of_int (hashtag_authenticity social)) / 2
      else 75)"

definition ingredientScore :: "OverallIngredientAnalysis \<Rightarrow> real" where
  "ingredientScore ingredient =
     (of_int (ingredient_quality_score ingredient)
        + of_int (ingredient_authenticity ingredient)) / 2"

definition reviewScore :: "ReviewAnalysis \<Rightarrow> real" where
  "reviewScore review =
     (if review_count review > 0 then of_int (review_authenticity_score review) else 75)"

definition priceScore :: "PriceAnalysis \<Rightarrow> jsnum" where
  "priceScore pa = price_vs_ingredients pa"

definition calculateOverallScore ::
    "ProductAnalysis \<Rightarrow> SocialAnalysis \<Rightarrow> OverallIngredientAnalysis \<Rightarrow> ReviewAnalysis
       \<Rightarrow> PriceAnalysis \<Rightarrow> jsnum" where
  "calculateOverallScore product social ingredient review pa =
     (let overallScore =
            js_add
              (Fin (productScore product * (2 / 10)
                      + socialScore social * (3 / 10)
                      + ingredientScore ingredient * (25 / 100)
                      + reviewScore review * (15 / 100)))
              (js_mul (priceScore pa) (Fin (1 / 10)))
      in Math_round (Math_max (Fin 0) (Math_min (Fin 100) overallScore)))"

definition determineVerdict :: "jsnum \<Rightarrow> SocialAnalysis \<Rightarrow> level \<times> verdict" where
  "determineVerdict realityScore socialAnalysis =
     (let verdict =
            (if promotional_detected socialAnalysis
                  \<or> sponsored_content_probability socialAnalysis > 70 then Likely_sponsored
             else if js_ge realityScore (Fin 70) then Authentic
             else Suspicious);
          confidenceLevel =
            (if has_social_data socialAnalysis \<and> js_gt realityScore (Fin 80) then High
             else if has_social_data socialAnalysis \<or> js_gt realityScore (Fin 60) then Medium
             else Low)
      in (confidenceLevel, verdict))"

text \<open>A natural number in decimal, and \<open>Array.prototype.join\<close>.\<close>

fun show_nat :: "nat \<Rightarrow> string" where
  "show_nat n =
     (if n < 10 then [''0123456789'' ! n]
      else show_nat (n div 10) @ [''0123456789'' ! (n mod 10)])"

declare show_nat.simps [simp del]

fun join :: "string list \<Rightarrow> string \<Rightarrow> string" where
  "join [] sep = []"
| "join [x] sep = x"
| "join (x # y # ys) sep = x @ sep @ join (y # ys) sep"

definition generateInsights ::
    "ProductAnalysis \<Rightarrow> SocialAnalysis \<Rightarrow> OverallIngredientAnalysis \<Rightarrow> ReviewAnalysis
       \<Rightarrow> PriceAnalysis \<Rightarrow> string list \<times> string list \<times> string list" where
  "generateInsights product social ingredient review pa =
     (let redFlags =
            (if promotional_detected social
             then [''Sponsored content detected - may be biased promotion''] else [])
            @ (if affiliate_codes_found social > 0
               then [show_nat (affiliate_codes_found social)
                       @ '' affiliate codes found - financial incentive present''] else [])
            @ (if length (potentially_harmful ingredient) > 0
               then [''Contains potentially irritating ingredients: ''
                       @ join (potentially_harmful ingredient) '', ''] else [])
            @ (if review_authenticity_score review < 50
               then [''Review patterns suggest possible fake reviews''] else [])
            @ (if value_assessment pa = Poor
               then [''Poor value for money - high price relative to ingredient quality'']
               else []);
          greenFlags =
            (if \<not> promotional_detected social \<and> has_social_data social
             then [''No promotional content detected - likely genuine recommendation'']
             else [])
            @ (if length (beneficial_ingredients ingredient) > 0
               then [''Contains beneficial ingredients: ''
                       @ join (beneficial_ingredients ingredient) '', ''] else [])
            @ (if brand_recognition product = Well_known
               then [''Product from well-established brand''] else [])
            @ (if review_credibility review = High
               then [''Reviews appear authentic and credible''] else [])
            @ (if value_assessment pa = Excellent \<or> value_assessment pa = Good
               then [''Good value for money based on ingredient quality''] else []);
          recommendations =
            (if promotional_detected social
             then [''Research product independently before purchasing - sponsored content detected'']
             else [])
            @ (if length (potentially_harmful ingredient) > 0
               then [''Patch test recommended due to potentially irritating ingredients'']
               else [])
            @ (if review_count review < 10
               then [''Look for more reviews from multiple sources before deciding''] else [])
            @ (if market_comparison pa = Premium
               then [''Consider if premium price is justified by your specific skincare needs'']
               else [])
      in (redFlags, greenFlags, recommendations))"

definition getDataSources ::
    "ProductData \<Rightarrow> TikTokVideoData option \<Rightarrow> ReviewSummary option \<Rightarrow> string list" where
  "getDataSources productData socialData reviewSummary =
     [platform productData]
     @ (case socialData of Some _ \<Rightarrow> [''tiktok''] | None \<Rightarrow> [])
     @ (case reviewSummary of
          Some rs \<Rightarrow> if total_reviews rs > 0 then [''reviews''] else []
        | None \<Rightarrow> [])"

section \<open>The engine\<close>

text \<open>
  \<open>analyzeProduct\<close> takes the state of the engine (its ingredient database) and the time
  of the call besides its three arguments. What it writes to the console is left out. An
  exception of the source is the result \<open>Inl\<close>.
\<close>

definition analyzeProduct ::
    "IngredientsDatabase option \<Rightarrow> string \<Rightarrow> ProductData \<Rightarrow> TikTokVideoData option
       \<Rightarrow> ReviewSummary option \<Rightarrow> error + RealityCheckResult" where
  "analyzeProduct db now productData socialData reviewSummary =
     (let productAnalysis = analyzeProduct_Internal productData;
          socialAnalysis = analyzeSocialMedia socialData
      in case analyzeIngredients db (ingredients productData) of
           Inl e \<Rightarrow> Inl e
         | Inr ingredientAnalysis \<Rightarrow>
             (let reviewAnalysis = analyzeReviews reviewSummary;
                  priceAnalysis =
                    analyzePrice (price productData) (ingredient_quality_score ingredientAnalysis);
                  realityScore =
                    calculateOverallScore productAnalysis socialAnalysis ingredientAnalysis
                      reviewAnalysis priceAnalysis;
                  (confidenceLevel, verdict) = determineVerdict realityScore socialAnalysis;
                  (redFlags, greenFlags, recommendations) =
                    generateInsights productAnalysis socialAnalysis ingredientAnalysis
                      reviewAnalysis priceAnalysis
              in Inr \<lparr>reality_score = realityScore,
                      confidence_level = confidenceLevel,
                      overall_verdict = verdict,
                      product_analysis = productAnalysis,
                      social_analysis = socialAnalysis,
                      ingredient_analysis = ingredientAnalysis,
                      review_analysis = reviewAnalysis,
                      price_analysis = priceAnalysis,
                      red_flags = redFlags,
                      green_flags = greenFlags,
                      recommendations = recommendations,
                      analysis_timestamp = now,
                      data_sources = getDataSources productData socialData reviewSummary\<rparr>))"

section \<open>What the specification states, for comparison\<close>

text \<open>
  The market tiers as the specification words them: below market up to 15, market rate up
  to 30, above market up to 60 and up to 100, premium beyond.
\<close>

definition claimed_market_comparison :: "real \<Rightarrow> market_comparison" where
  "claimed_market_comparison p =
     (if p \<le> 15 then Below_market
      else if p \<le> 30 then Market_rate
      else if p \<le> 60 then Above_market
      else if p \<le> 100 then Above_market
      else Premium)"

text \<open>
  The hashtag rule as the specification words it, with no case for an empty list: count
  the hashtags that contain a spammy term and those that contain an organic term, and
  compare.
\<close>

definition claimed_hashtag_authenticity :: "string list \<Rightarrow> int" where
  "claimed_hashtag_authenticity tags =
     (let spammyCount =
            length (filter (\<lambda>t. \<exists>k \<in> set [''ad'', ''sponsored'', ''promo'', ''affiliate'', ''linkinbio''].
                              str_includes (toLowerCase t) k) tags);
          organicCount =
            length (filter (\<lambda>t. \<exists>k \<in> set [''skincare'', ''beauty'', ''selfcare'', ''routine'', ''review''].
                              str_includes (toLowerCase t) k) tags)
      in if spammyCount > organicCount then 30
         else if organicCount > spammyCount then 85
         else 60)"

text \<open>
  The review rule as the specification words it: both ratios are taken from the sum of the
  three counts, and are 0 when that sum is 0.
\<close>

definition claimed_review_authenticity :: "SentimentBreakdown \<Rightarrow> int" where
  "claimed_review_authenticity sb =
     (let total = positive sb + negative sb + neutral sb;
          positive_ratio = (if total = 0 then 0 else real (positive sb) / real total);
          negative_ratio = (if total = 0 then 0 else real (negative sb) / real total)
      in if positive_ratio > 9 / 10 \<or> negative_ratio > 8 / 10 then 30
         else if 4 / 10 \<le> positive_ratio \<and> positive_ratio \<le> 8 / 10
                 \<and> 1 / 10 \<le> negative_ratio \<and> negative_ratio \<le> 4 / 10 then 85
         else 60)"

section \<open>Databases that cannot raise, and sample inputs\<close>

text \<open>
  A database is well shaped when it is still \<open>null\<close> or has both lists that the engine
  reads, as the built-in data has.
\<close>

definition well_shaped :: "IngredientsDatabase option \<Rightarrow> bool" where
  "well_shaped db =
     (case db of
        None \<Rightarrow> True
      | Some d \<Rightarrow> db_beneficial d \<noteq> None \<and> db_potentially_harmful d \<noteq> None)"

text \<open>The product, the post and the review summaries of the specification's scenarios.\<close>

definition scenario1_product :: ProductData where
  "scenario1_product =
     \<lparr>name = ''Hydrating Serum'', price = ''$15'',
      ingredients = \<lparr>raw = ''water, niacinamide, glycerin'',
                     parsed = [''water'', ''niacinamide'', ''glycerin'']\<rparr>,
      platform = ''generic''\<rparr>"

definition scenario2_social :: TikTokVideoData where
  "scenario2_social =
     \<lparr>username = ''beauty_influencer'', caption = ''Use my code GLOW20 #ad #sponsored #skincare'',
      hashtags = [''ad'', ''sponsored'', ''skincare''], mentions = [],
      likes = Some 15643, views = Some 234567, comments = Some 324, shares = Some 156,
      affiliate_codes = [''GLOW20''], promotional_keywords = [],
      paid_promotion_detected = True,
      video_url = ''https://tiktok.com/@beauty_influencer/video/67890'',
      posting_date = Some ''2024-01-10''\<rparr>"

definition scenario3_reviews :: ReviewSummary where
  "scenario3_reviews =
     \<lparr>total_reviews = 156,
      sentiment_breakdown = \<lparr>positive = 89, negative = 23, neutral = 44\<rparr>,
      common_negatives = [''sticky feeling'', ''strong fragrance'', ''broke out'']\<rparr>"

text \<open>
  Two summaries that are present but empty in one way: no reviews counted although the
  breakdown has counts, and reviews counted although the breakdown is empty.
\<close>

definition zero_total_reviews :: ReviewSummary where
  "zero_total_reviews =
     \<lparr>total_reviews = 0,
      sentiment_breakdown = \<lparr>positive = 50, negative = 20, neutral = 30\<rparr>,
      common_negatives = [''sticky feeling'']\<rparr>"

definition empty_breakdown_reviews :: ReviewSummary where
  "empty_breakdown_reviews =
     \<lparr>total_reviews = 10,
      sentiment_breakdown = \<lparr>positive = 0, negative = 0, neutral = 0\<rparr>,
      common_negatives = []\<rparr>"

text \<open>
  A social record with its promotion taken out: the flag cleared, no affiliate code, and
  the hashtags that contain a spammy term removed.
\<close>

definition without_promotion :: "TikTokVideoData \<Rightarrow> TikTokVideoData" where
  "without_promotion s =
     s\<lparr>paid_promotion_detected := False,
       affiliate_codes := [],
       hashtags := filter (\<lambda>tag. \<not> some spammy (\<lambda>spam. str_includes (toLowerCase tag) spam))
                     (hashtags s)\<rparr>"

text \<open>A product whose price string has a comma and no digit.\<close>

definition unpriced_product :: ProductData where
  "unpriced_product = scenario1_product\<lparr>price := ''N/A, sold out''\<rparr>"

section \<open>Strings and price parsing: basic facts\<close>

lemmas price_eval = extractNumericPrice_def parseFloat_def remove_commas_def digit_or_comma_def
  is_digit_def digit_val_def dec_val_def

lemma starts_with_iff: "starts_with s p \<longleftrightarrow> (\<exists>r. s = p @ r)"
  by (induction s p rule: starts_with.induct) auto

text \<open>\<open>str_includes\<close> is the substring relation.\<close>

lemma str_includes_iff: "str_includes s sub \<longleftrightarrow> (\<exists>ps ss. s = ps @ sub @ ss)"
proof (induction s)
  case Nil
  then show ?case by auto
next
  case (Cons c cs)
  show ?case
  proof
    assume "str_includes (c # cs) sub"
    then consider "starts_with (c # cs) sub" | "str_includes cs sub" by auto
    then show "\<exists>ps ss. c # cs = ps @ sub @ ss"
    proof cases
      case 1
      then obtain r where "c # cs = sub @ r" by (auto simp: starts_with_iff)
      then have "c # cs = [] @ sub @ r" by simp
      then show ?thesis by blast
    next
      case 2
      with Cons.IH obtain ps ss where "cs = ps @ sub @ ss" by auto
      then have "c # cs = (c # ps) @ sub @ ss" by simp
      then show ?thesis by blast
    qed
  next
    assume "\<exists>ps ss. c # cs = ps @ sub @ ss"
    then obtain ps ss where e: "c # cs = ps @ sub @ ss" by blast
    show "str_includes (c # cs) sub"
    proof (cases ps)
      case Nil
      with e have "starts_with (c # cs) sub" by (auto simp: starts_with_iff)
      then show ?thesis by simp
    next
      case ps: (Cons a ps')
      with e have "cs = ps' @ sub @ ss" by simp
      with Cons.IH have "str_includes cs sub" by blast
      then show ?thesis by simp
    qed
  qed
qed

section \<open>Price tiers\<close>

text \<open>
  C3, as the code has it. When the price string yields the number \<open>p\<close>, the label of
  the price range is Budget for \<open>p \<le> 15\<close>, Affordable for \<open>p \<le> 30\<close>, Mid-range
  for \<open>p \<le> 60\<close>, Premium for \<open>p \<le> 100\<close> and Luxury above, and the market
  comparison has tiers of its own: below market for \<open>p \<le> 20\<close>, market rate for
  \<open>p \<le> 50\<close>, above market for \<open>p \<le> 100\<close>, premium above. All bounds are
  inclusive.
\<close>

theorem price_tiers:
  assumes "extractNumericPrice pr = Some (Fin p)"
  shows "price_range (analyzePrice pr q) =
           (if p \<le> 15 then ''Budget ($0-$15)''
            else if p \<le> 30 then ''Affordable ($15-$30)''
            else if p \<le> 60 then ''Mid-range ($30-$60)''
            else if p \<le> 100 then ''Premium ($60-$100)''
            else ''Luxury ($100+)'')
       \<and> market_comparison (analyzePrice pr q) =
           (if p \<le> 20 then Below_market
            else if p \<le> 50 then Market_rate
            else if p \<le> 100 then Above_market
            else Premium)"
  using assms by (simp add: analyzePrice_def getPriceRange_def compareToMarket_def)

theorem price_tiers_witness:
  "extractNumericPrice ''$18'' = Some (Fin 18)
   \<and> price_range (analyzePrice ''$18'' 50) = ''Affordable ($15-$30)''
   \<and> market_comparison (analyzePrice ''$18'' 50) = Below_market"
proof -
  have h: "extractNumericPrice ''$18'' = Some (Fin 18)"
    by (simp add: price_eval)
  from price_tiers [OF h, of 50] show ?thesis
    using h by simp
qed

text \<open>
  C3 as the specification states it fails at the price \<open>$18\<close>: the specification puts 18
  in the market-rate tier (above 15, at most 30), the code returns below market.
\<close>

theorem market_comparison_counterexample:
  "extractNumericPrice ''$18'' = Some (Fin 18)
   \<and> market_comparison (analyzePrice ''$18'' 50) = Below_market
   \<and> claimed_market_comparison 18 = Market_rate"
  by (simp add: analyzePrice_def compareToMarket_def claimed_market_comparison_def price_eval)

section \<open>What the engine returns\<close>

text \<open>With a well-shaped database neither lookup raises, so the engine returns a result.\<close>

lemma analyzeIngredients_returns:
  assumes "well_shaped db"
  shows "\<exists>ia. analyzeIngredients db ings = Inr ia"
  using assms
  by (auto simp: well_shaped_def analyzeIngredients_def findBeneficialIngredients_def
      findHarmfulIngredients_def split: option.splits)

lemma analyzeProduct_returns:
  assumes "well_shaped db"
  shows "\<exists>res. analyzeProduct db now p s rv = Inr res"
proof -
  from analyzeIngredients_returns [OF assms] obtain ia
    where "analyzeIngredients db (ingredients p) = Inr ia" by blast
  then show ?thesis
    by (simp add: analyzeProduct_def Let_def split: prod.splits)
qed

lemma analyzeProduct_social:
  assumes "analyzeProduct db now p s rv = Inr res"
  shows "social_analysis res = analyzeSocialMedia s"
  using assms
  by (auto simp: analyzeProduct_def Let_def split: sum.splits prod.splits)

lemma analyzeProduct_verdict:
  assumes "analyzeProduct db now p s rv = Inr res"
  shows "overall_verdict res = snd (determineVerdict (reality_score res) (social_analysis res))"
  using assms
  by (auto simp: analyzeProduct_def Let_def split: sum.splits prod.splits)

section \<open>The verdict\<close>

text \<open>
  C1. In every result that \<open>analyzeProduct\<close> returns, \<open>promotional_detected\<close> is the
  flag \<open>paid_promotion_detected\<close> of the social record (false without one); the verdict is
  likely sponsored when \<open>promotional_detected\<close> holds or the sponsored probability
  exceeds 70, otherwise authentic when the reality score is at least 70, otherwise
  suspicious. So a social record with the flag set always gives the verdict likely
  sponsored, whatever the score.
\<close>

theorem verdict_rule:
  assumes "analyzeProduct db now p s rv = Inr res"
  shows "promotional_detected (social_analysis res) =
           (case s of Some sd \<Rightarrow> paid_promotion_detected sd | None \<Rightarrow> False)
       \<and> overall_verdict res =
           (if promotional_detected (social_analysis res)
                 \<or> sponsored_content_probability (social_analysis res) > 70
            then Likely_sponsored
            else if js_ge (reality_score res) (Fin 70) then Authentic
            else Suspicious)
       \<and> ((\<exists>sd. s = Some sd \<and> paid_promotion_detected sd)
              \<longrightarrow> overall_verdict res = Likely_sponsored)"
proof -
  have soc: "social_analysis res = analyzeSocialMedia s"
    using assms by (rule analyzeProduct_social)
  have v: "overall_verdict res = snd (determineVerdict (reality_score res) (social_analysis res))"
    using assms by (rule analyzeProduct_verdict)
  have p: "promotional_detected (analyzeSocialMedia s) =
           (case s of Some sd \<Rightarrow> paid_promotion_detected sd | None \<Rightarrow> False)"
    by (simp add: analyzeSocialMedia_def split: option.splits)
  show ?thesis
    using p by (auto simp: v soc determineVerdict_def Let_def)
qed

theorem verdict_rule_witness:
  "\<exists>res. analyzeProduct (Some getBuiltInIngredientData) ''2024-01-15T10:00:00.000Z''
            scenario1_product (Some scenario2_social) None = Inr res
         \<and> paid_promotion_detected scenario2_social
         \<and> promotional_detected (social_analysis res)
         \<and> overall_verdict res = Likely_sponsored"
proof -
  have "well_shaped (Some getBuiltInIngredientData)"
    by (simp add: well_shaped_def getBuiltInIngredientData_def)
  then obtain res where r: "analyzeProduct (Some getBuiltInIngredientData)
      ''2024-01-15T10:00:00.000Z'' scenario1_product (Some scenario2_social) None = Inr res"
    using analyzeProduct_returns by blast
  have p: "paid_promotion_detected scenario2_social"
    by (simp add: scenario2_social_def)
  from verdict_rule [OF r] p r show ?thesis
    by auto
qed

section \<open>Hashtags\<close>

text \<open>
  C4, as the code has it. For a social record with at least one hashtag, the hashtag
  authenticity is 30 when more hashtags contain a spammy term (ad, sponsored, promo,
  affiliate, linkinbio) than contain an organic term (skincare, beauty, selfcare, routine,
  review), 85 when more contain an organic term, and 60 otherwise; for a social record
  with no hashtag it is 75.
\<close>

theorem hashtag_authenticity_cases:
  "hashtag_authenticity (analyzeSocialMedia (Some s)) =
     (if hashtags s = [] then 75 else claimed_hashtag_authenticity (hashtags s))"
  by (simp add: analyzeSocialMedia_def calculateHashtagAuthenticity_def
      claimed_hashtag_authenticity_def some_def list_ex_iff spammy_def organic_def Let_def)

text \<open>
  C4 as the specification states it fails on the empty hashtag list: both counts are 0, so
  the specification gives 60, and the code returns 75.
\<close>

theorem hashtag_authenticity_counterexample:
  "hashtag_authenticity (analyzeSocialMedia (Some (scenario2_social\<lparr>hashtags := []\<rparr>))) = 75
   \<and> claimed_hashtag_authenticity (hashtags (scenario2_social\<lparr>hashtags := []\<rparr>)) = 60"
  by (simp add: analyzeSocialMedia_def calculateHashtagAuthenticity_def
      claimed_hashtag_authenticity_def)

section \<open>Sponsored probability\<close>

text \<open>
  C5. For every social record the sponsored probability is the least of 100 and the sum of
  40 when \<open>paid_promotion_detected\<close> is set, 30 when there is an affiliate code, 20 when
  there is a promotional keyword, and 10 for each hashtag that is one of ad, sponsored,
  promo, affiliate, gifted. A record with the hashtags ad, sponsored and skincare, the
  affiliate code GLOW20, no promotional keyword and the flag set has probability 90, and
  every result of \<open>analyzeProduct\<close> for it has this probability and the verdict likely
  sponsored.
\<close>

theorem sponsored_probability_formula:
  "sponsored_content_probability (analyzeSocialMedia (Some s)) =
     min 100
       ((if paid_promotion_detected s then 40 else 0)
        + (if affiliate_codes s \<noteq> [] then 30 else 0)
        + (if promotional_keywords s \<noteq> [] then 20 else 0)
        + 10 * int (length (filter
            (\<lambda>t. toLowerCase t \<in> set [''ad'', ''sponsored'', ''promo'', ''affiliate'', ''gifted''])
            (hashtags s))))
   \<and> (hashtags s = [''ad'', ''sponsored'', ''skincare''] \<and> affiliate_codes s = [''GLOW20'']
        \<and> promotional_keywords s = [] \<and> paid_promotion_detected s
      \<longrightarrow> sponsored_content_probability (analyzeSocialMedia (Some s)) = 90
          \<and> (\<forall>db now p rv res. analyzeProduct db now p (Some s) rv = Inr res
                \<longrightarrow> sponsored_content_probability (social_analysis res) = 90
                    \<and> overall_verdict res = Likely_sponsored))"
proof -
  have f: "sponsored_content_probability (analyzeSocialMedia (Some s)) =
     min 100
       ((if paid_promotion_detected s then 40 else 0)
        + (if affiliate_codes s \<noteq> [] then 30 else 0)
        + (if promotional_keywords s \<noteq> [] then 20 else 0)
        + 10 * int (length (filter
            (\<lambda>t. toLowerCase t \<in> set [''ad'', ''sponsored'', ''promo'', ''affiliate'', ''gifted''])
            (hashtags s))))"
    by (simp add: analyzeSocialMedia_def calculateSponsoredProbability_def arr_includes_def
        sponsoredTags_def Let_def mult.commute)
  have g: "sponsored_content_probability (analyzeSocialMedia (Some s)) = 90"
    if h: "hashtags s = [''ad'', ''sponsored'', ''skincare'']" "affiliate_codes s = [''GLOW20'']"
      "promotional_keywords s = []" "paid_promotion_detected s"
    unfolding f using h by (simp add: toLowerCase_def lower_char_def)
  have k: "sponsored_content_probability (social_analysis res) = 90
            \<and> overall_verdict res = Likely_sponsored"
    if h: "hashtags s = [''ad'', ''sponsored'', ''skincare'']" "affiliate_codes s = [''GLOW20'']"
      "promotional_keywords s = []" "paid_promotion_detected s"
      and r: "analyzeProduct db now p (Some s) rv = Inr res" for db now p rv res
  proof -
    have soc: "social_analysis res = analyzeSocialMedia (Some s)"
      using r by (rule analyzeProduct_social)
    have v: "overall_verdict res = snd (determineVerdict (reality_score res) (social_analysis res))"
      using r by (rule analyzeProduct_verdict)
    show ?thesis
      using g [OF h] by (simp add: v soc determineVerdict_def)
  qed
  show ?thesis
    using f g k by blast
qed

theorem sponsored_probability_formula_witness:
  "hashtags scenario2_social = [''ad'', ''sponsored'', ''skincare'']
   \<and> affiliate_codes scenario2_social = [''GLOW20'']
   \<and> promotional_keywords scenario2_social = []
   \<and> paid_promotion_detected scenario2_social
   \<and> sponsored_content_probability (analyzeSocialMedia (Some scenario2_social)) = 90
   \<and> (\<exists>res. analyzeProduct (Some getBuiltInIngredientData) ''2024-01-15T10:00:00.000Z''
               scenario1_product (Some scenario2_social) None = Inr res
            \<and> sponsored_content_probability (social_analysis res) = 90
            \<and> overall_verdict res = Likely_sponsored)"
proof -
  have "well_shaped (Some getBuiltInIngredientData)"
    by (simp add: well_shaped_def getBuiltInIngredientData_def)
  then obtain res where r: "analyzeProduct (Some getBuiltInIngredientData)
      ''2024-01-15T10:00:00.000Z'' scenario1_product (Some scenario2_social) None = Inr res"
    using analyzeProduct_returns by blast
  have h: "hashtags scenario2_social = [''ad'', ''sponsored'', ''skincare'']
           \<and> affiliate_codes scenario2_social = [''GLOW20'']
           \<and> promotional_keywords scenario2_social = []
           \<and> paid_promotion_detected scenario2_social"
    by (simp add: scenario2_social_def)
  from sponsored_probability_formula [of scenario2_social] h r show ?thesis
    by blast
qed

section \<open>Reviews\<close>

text \<open>
  C7, as the code has it. For a review summary that is present, the authenticity score is
  50 when \<open>total_reviews\<close> is 0 or the three counts of the breakdown sum to 0;
  otherwise, with both ratios taken from that sum, it is 30 when the positive ratio
  exceeds 0.9 or the negative ratio exceeds 0.8, else 85 when the positive ratio lies in
  [0.4, 0.8] and the negative ratio in [0.1, 0.4], else 60. The credibility is high when
  \<open>total_reviews\<close> is at least 20 and the score at least 70, medium when
  \<open>total_reviews\<close> is at least 5 and the score at least 50, and low otherwise.
\<close>

theorem review_authenticity_and_credibility:
  "review_authenticity_score (analyzeReviews (Some rs)) =
     (if total_reviews rs = 0
         \<or> positive (sentiment_breakdown rs) + negative (sentiment_breakdown rs)
             + neutral (sentiment_breakdown rs) = 0
      then 50
      else claimed_review_authenticity (sentiment_breakdown rs))
   \<and> review_credibility (analyzeReviews (Some rs)) =
     (if total_reviews rs \<ge> 20 \<and> review_authenticity_score (analyzeReviews (Some rs)) \<ge> 70
      then High
      else if total_reviews rs \<ge> 5 \<and> review_authenticity_score (analyzeReviews (Some rs)) \<ge> 50
      then Medium
      else Low)"
  by (simp add: analyzeReviews_def noReviews_def calculateReviewAuthenticity_def
      claimed_review_authenticity_def assessReviewCredibility_def Let_def)

text \<open>
  C7 as the specification states it fails on both empty summaries. With no reviews counted
  and the breakdown 50, 20, 30 the ratios 0.5 and 0.2 lie in the two bands, so the
  specification gives 85; with ten reviews counted and an empty breakdown both ratios are
  0, so the specification gives 60. The code returns 50 for both.
\<close>

theorem review_authenticity_counterexample:
  "review_authenticity_score (analyzeReviews (Some zero_total_reviews)) = 50
   \<and> claimed_review_authenticity (sentiment_breakdown zero_total_reviews) = 85
   \<and> review_authenticity_score (analyzeReviews (Some empty_breakdown_reviews)) = 50
   \<and> claimed_review_authenticity (sentiment_breakdown empty_breakdown_reviews) = 60"
  by (simp add: analyzeReviews_def noReviews_def calculateReviewAuthenticity_def
      claimed_review_authenticity_def zero_total_reviews_def empty_breakdown_reviews_def)

text \<open>
  C10. A review summary with \<open>total_reviews = 0\<close> is treated as an absent one, whatever
  its breakdown holds: the review analysis is the one of no reviews (count 0, an all-zero
  distribution, authenticity 50, no concerns, credibility low), the review component of
  the weighted sum is 75, the data sources are the platform and the social tag only, and
  the whole result of \<open>analyzeProduct\<close> is the one without a summary.
\<close>

theorem zero_total_reviews_as_absent:
  assumes "total_reviews rs = 0"
  shows "analyzeReviews (Some rs) =
           \<lparr>review_count = 0,
            sentiment_distribution = \<lparr>positive = 0, negative = 0, neutral = 0\<rparr>,
            review_authenticity_score = 50,
            common_concerns = [],
            review_credibility = Low\<rparr>
       \<and> analyzeReviews (Some rs) = analyzeReviews None
       \<and> reviewScore (analyzeReviews (Some rs)) = 75
       \<and> getDataSources p s (Some rs) =
           [platform p] @ (case s of Some sd \<Rightarrow> [''tiktok''] | None \<Rightarrow> [])
       \<and> analyzeProduct db now p s (Some rs) = analyzeProduct db now p s None"
proof -
  have a: "analyzeReviews (Some rs) = analyzeReviews None"
    using assms by (simp add: analyzeReviews_def)
  have b: "getDataSources p s (Some rs) = getDataSources p s None"
    using assms by (simp add: getDataSources_def)
  have c: "analyzeProduct db now p s (Some rs) = analyzeProduct db now p s None"
    by (simp only: analyzeProduct_def a b)
  have d: "getDataSources p s None =
             [platform p] @ (case s of Some sd \<Rightarrow> [''tiktok''] | None \<Rightarrow> [])"
    by (simp add: getDataSources_def)
  have e: "analyzeReviews None =
           \<lparr>review_count = 0,
            sentiment_distribution = \<lparr>positive = 0, negative = 0, neutral = 0\<rparr>,
            review_authenticity_score = 50,
            common_concerns = [],
            review_credibility = Low\<rparr>"
    by (simp add: analyzeReviews_def noReviews_def)
  have f: "reviewScore (analyzeReviews None) = 75"
    by (simp add: e reviewScore_def)
  show ?thesis
    unfolding a b c d using e f by simp
qed

theorem zero_total_reviews_as_absent_witness:
  "total_reviews zero_total_reviews = 0
   \<and> sentiment_breakdown zero_total_reviews = \<lparr>positive = 50, negative = 20, neutral = 30\<rparr>
   \<and> review_authenticity_score (analyzeReviews (Some zero_total_reviews)) = 50
   \<and> review_credibility (analyzeReviews (Some zero_total_reviews)) = Low
   \<and> reviewScore (analyzeReviews (Some zero_total_reviews)) = 75
   \<and> getDataSources scenario1_product None (Some zero_total_reviews) = [''generic'']
   \<and> analyzeProduct None ''2024-01-15T10:00:00.000Z'' scenario1_product None
        (Some zero_total_reviews)
      = analyzeProduct None ''2024-01-15T10:00:00.000Z'' scenario1_product None None"
proof -
  have h: "total_reviews zero_total_reviews = 0"
    by (simp add: zero_total_reviews_def)
  have pl: "platform scenario1_product = ''generic''"
    by (simp add: scenario1_product_def)
  have sb: "sentiment_breakdown zero_total_reviews = \<lparr>positive = 50, negative = 20, neutral = 30\<rparr>"
    by (simp add: zero_total_reviews_def)
  note t = zero_total_reviews_as_absent [OF h, of scenario1_product None None
      "''2024-01-15T10:00:00.000Z''"]
  from t have r: "analyzeReviews (Some zero_total_reviews) =
           \<lparr>review_count = 0,
            sentiment_distribution = \<lparr>positive = 0, negative = 0, neutral = 0\<rparr>,
            review_authenticity_score = 50,
            common_concerns = [],
            review_credibility = Low\<rparr>"
    by blast
  have a: "review_authenticity_score (analyzeReviews (Some zero_total_reviews)) = 50"
    and c: "review_credibility (analyzeReviews (Some zero_total_reviews)) = Low"
    by (simp_all add: r)
  from t have s: "reviewScore (analyzeReviews (Some zero_total_reviews)) = 75"
    by blast
  from t have d: "getDataSources scenario1_product None (Some zero_total_reviews) = [''generic'']"
    by (simp add: pl)
  from t have e: "analyzeProduct None ''2024-01-15T10:00:00.000Z'' scenario1_product None
        (Some zero_total_reviews)
      = analyzeProduct None ''2024-01-15T10:00:00.000Z'' scenario1_product None None"
    by blast
  from h sb a c s d e show ?thesis
    by blast
qed

section \<open>Ingredient scores of the first scenario\<close>

lemmas str_eval = toLowerCase_def lower_char_def some_def arr_includes_def

lemma builtin_lookup:
  "findBeneficialIngredients (Some getBuiltInIngredientData) [''water'', ''niacinamide'', ''glycerin'']
     = Inr [''niacinamide'', ''glycerin'']"
  "findHarmfulIngredients (Some getBuiltInIngredientData) [''water'', ''niacinamide'', ''glycerin'']
     = Inr []"
  by (simp_all add: findBeneficialIngredients_def findHarmfulIngredients_def
      getBuiltInIngredientData_def str_eval)

lemma quality_2_0_3: "calculateIngredientQualityScore 2 0 3 = 87"
  by (simp add: calculateIngredientQualityScore_def round_half_up_def)

lemma quality_2_0_3_Suc:
  "calculateIngredientQualityScore (Suc (Suc 0)) 0 (Suc (Suc (Suc 0))) = 87"
  using quality_2_0_3 by (simp add: numeral_2_eq_2 numeral_3_eq_3)

lemma claimed_77: "round_half_up ((2 / 3) * 70 + 1 * 30) = 77"
  by (simp add: round_half_up_def)

lemma authenticity_scenario1:
  assumes "parsed ings = [''water'', ''niacinamide'', ''glycerin'']"
  shows "calculateIngredientAuthenticity ings = 85"
  using assms
  by (simp add: calculateIngredientAuthenticity_def preservatives_def round_half_up_def str_eval)

lemma analyzeProduct_ingredients:
  assumes "analyzeProduct db now p s rv = Inr res"
  shows "analyzeIngredients db (ingredients p) = Inr (ingredient_analysis res)"
  using assms
  by (auto simp: analyzeProduct_def Let_def split: sum.splits prod.splits)

lemma well_shaped_builtin: "well_shaped (Some getBuiltInIngredientData)"
  by (simp add: well_shaped_def getBuiltInIngredientData_def)

text \<open>
  C2, as the code has it. For a product whose parsed ingredients are water, niacinamide and
  glycerin (price \<open>$15\<close>, no social data, no reviews), the engine with its built-in
  ingredient data finds niacinamide and glycerin beneficial and nothing harmful, and
  returns the quality score \<open>round ((2/3) * 70 + 1 * 30 + 10) = 87\<close>, the 10 being the
  bonus for beneficial ingredients without harmful ones, and the authenticity 85 (base 75,
  no bonus for three ingredients, 10 for water in first place, no preservative).
\<close>

theorem scenario1_ingredient_scores:
  assumes "parsed (ingredients p) = [''water'', ''niacinamide'', ''glycerin'']"
  shows "\<exists>res. analyzeProduct (Some getBuiltInIngredientData) now p None None = Inr res
           \<and> beneficial_ingredients (ingredient_analysis res) = [''niacinamide'', ''glycerin'']
           \<and> potentially_harmful (ingredient_analysis res) = []
           \<and> ingredient_quality_score (ingredient_analysis res) = 87
           \<and> ingredient_quality_score (ingredient_analysis res)
               = round_half_up ((2 / 3) * 70 + 1 * 30 + 10)
           \<and> ingredient_authenticity (ingredient_analysis res) = 85"
proof -
  obtain res where r: "analyzeProduct (Some getBuiltInIngredientData) now p None None = Inr res"
    using analyzeProduct_returns [OF well_shaped_builtin] by blast
  have "analyzeIngredients (Some getBuiltInIngredientData) (ingredients p) =
          Inr \<lparr>total_ingredients = 3,
               beneficial_ingredients = [''niacinamide'', ''glycerin''],
               potentially_harmful = [],
               ingredient_quality_score = 87,
               ingredient_authenticity = 85\<rparr>"
    using assms
    by (simp add: analyzeIngredients_def builtin_lookup quality_2_0_3_Suc authenticity_scenario1)
  with analyzeProduct_ingredients [OF r]
  have ia: "ingredient_analysis res =
             \<lparr>total_ingredients = 3,
              beneficial_ingredients = [''niacinamide'', ''glycerin''],
              potentially_harmful = [],
              ingredient_quality_score = 87,
              ingredient_authenticity = 85\<rparr>"
    by simp
  have rd: "round_half_up ((2 / 3) * 70 + 1 * 30 + 10) = 87"
    by (simp add: round_half_up_def)
  have q: "ingredient_quality_score (ingredient_analysis res) = 87"
    by (simp add: ia)
  have q': "ingredient_quality_score (ingredient_analysis res)
             = round_half_up ((2 / 3) * 70 + 1 * 30 + 10)"
    unfolding q rd ..
  have b: "beneficial_ingredients (ingredient_analysis res) = [''niacinamide'', ''glycerin'']"
    and h: "potentially_harmful (ingredient_analysis res) = []"
    and a: "ingredient_authenticity (ingredient_analysis res) = 85"
    by (simp_all add: ia)
  from r b h q q' a show ?thesis
    by blast
qed

theorem scenario1_ingredient_scores_witness:
  "parsed (ingredients scenario1_product) = [''water'', ''niacinamide'', ''glycerin'']
   \<and> price scenario1_product = ''$15''
   \<and> (\<exists>res. analyzeProduct (Some getBuiltInIngredientData) ''2024-01-15T10:00:00.000Z''
               scenario1_product None None = Inr res
            \<and> ingredient_quality_score (ingredient_analysis res) = 87
            \<and> ingredient_authenticity (ingredient_analysis res) = 85)"
proof -
  have h: "parsed (ingredients scenario1_product) = [''water'', ''niacinamide'', ''glycerin'']"
    by (simp add: scenario1_product_def)
  have pr: "price scenario1_product = ''$15''"
    by (simp add: scenario1_product_def)
  from scenario1_ingredient_scores [OF h, of "''2024-01-15T10:00:00.000Z''"] h pr
  show ?thesis by blast
qed

text \<open>
  C2 as the specification states it fails: the engine returns the quality score 87 for
  this product, not \<open>round ((2/3) * 70 + 1 * 30) = 77\<close>.
\<close>

theorem scenario1_quality_counterexample:
  "analyzeIngredients (Some getBuiltInIngredientData) (ingredients scenario1_product) =
     Inr \<lparr>total_ingredients = 3,
          beneficial_ingredients = [''niacinamide'', ''glycerin''],
          potentially_harmful = [],
          ingredient_quality_score = 87,
          ingredient_authenticity = 85\<rparr>
   \<and> round_half_up ((2 / 3) * 70 + 1 * 30) = 77"
proof -
  have "analyzeIngredients (Some getBuiltInIngredientData) (ingredients scenario1_product) =
     Inr \<lparr>total_ingredients = 3,
          beneficial_ingredients = [''niacinamide'', ''glycerin''],
          potentially_harmful = [],
          ingredient_quality_score = 87,
          ingredient_authenticity = 85\<rparr>"
    by (simp add: analyzeIngredients_def builtin_lookup quality_2_0_3_Suc authenticity_scenario1
        scenario1_product_def)
  then show ?thesis
    using claimed_77 by (rule conjI)
qed

section \<open>The social penalty\<close>

lemma filter_filter_le: "length (filter R (filter N xs)) \<le> length (filter R xs)"
  by (induction xs) auto

lemma count_split:
  "length (filter Q xs) \<le> length (filter P xs) + length (filter Q (filter (\<lambda>x. \<not> P x) xs))"
  by (induction xs) auto

lemma filter_neg_self: "filter P (filter (\<lambda>x. \<not> P x) xs) = []"
  by (induction xs) auto

lemma hashtag_authenticity_mono:
  "calculateHashtagAuthenticity tags
     \<le> calculateHashtagAuthenticity
          (filter (\<lambda>tag. \<not> some spammy (\<lambda>spam. str_includes (toLowerCase tag) spam)) tags)"
proof -
  let ?P = "\<lambda>tag. some spammy (\<lambda>spam. str_includes (toLowerCase tag) spam)"
  let ?Q = "\<lambda>tag. some organic (\<lambda>org. str_includes (toLowerCase tag) org)"
  let ?rest = "filter (\<lambda>tag. \<not> ?P tag) tags"
  have a: "filter ?P ?rest = []"
    by (rule filter_neg_self)
  have b: "length (filter ?Q tags) \<le> length (filter ?P tags) + length (filter ?Q ?rest)"
    by (rule count_split)
  show ?thesis
  proof (cases "?rest = []")
    case True
    with b have "length (filter ?Q tags) \<le> length (filter ?P tags)" by simp
    then show ?thesis
      using True by (simp add: calculateHashtagAuthenticity_def Let_def)
  next
    case False
    then have ne: "tags \<noteq> []" by auto
    show ?thesis
    proof (cases "length (filter ?Q ?rest) = 0")
      case True
      with b have "length (filter ?Q tags) \<le> length (filter ?P tags)" by simp
      then show ?thesis
        using False ne a True by (simp add: calculateHashtagAuthenticity_def Let_def)
    next
      case nz: False
      then show ?thesis
        using False ne a by (simp add: calculateHashtagAuthenticity_def Let_def)
    qed
  qed
qed

lemma sponsored_probability_eq:
  "calculateSponsoredProbability s =
     min 100
       ((if paid_promotion_detected s then 40 else 0)
        + (if affiliate_codes s \<noteq> [] then 30 else 0)
        + (if promotional_keywords s \<noteq> [] then 20 else 0)
        + 10 * int (length (filter (\<lambda>tag. arr_includes sponsoredTags (toLowerCase tag))
                              (hashtags s))))"
  by (simp add: calculateSponsoredProbability_def Let_def mult.commute)

lemma sponsored_probability_mono:
  "calculateSponsoredProbability (without_promotion s) \<le> calculateSponsoredProbability s"
proof -
  let ?R = "\<lambda>tag. arr_includes sponsoredTags (toLowerCase tag)"
  have n: "length (filter ?R (hashtags (without_promotion s))) \<le> length (filter ?R (hashtags s))"
    using filter_filter_le [of ?R
        "\<lambda>tag. \<not> some spammy (\<lambda>spam. str_includes (toLowerCase tag) spam)" "hashtags s"]
    by (simp add: without_promotion_def)
  have k: "promotional_keywords (without_promotion s) = promotional_keywords s"
    and f: "\<not> paid_promotion_detected (without_promotion s)"
    and c: "affiliate_codes (without_promotion s) = []"
    by (simp_all add: without_promotion_def)
  have "(if paid_promotion_detected (without_promotion s) then 40 else 0)
        + (if affiliate_codes (without_promotion s) \<noteq> [] then 30 else 0)
        + (if promotional_keywords (without_promotion s) \<noteq> [] then 20 else 0)
        + 10 * int (length (filter ?R (hashtags (without_promotion s))))
      \<le> (if paid_promotion_detected s then 40 else 0)
        + (if affiliate_codes s \<noteq> [] then 30 else 0)
        + (if promotional_keywords s \<noteq> [] then (20::int) else 0)
        + 10 * int (length (filter ?R (hashtags s)))"
    using n by (simp add: k f c)
  then show ?thesis
    unfolding sponsored_probability_eq by (rule min.mono [OF order_refl])
qed

lemma socialScore_mono:
  "socialScore (analyzeSocialMedia (Some s))
     \<le> socialScore (analyzeSocialMedia (Some (without_promotion s)))"
proof -
  have h: "calculateHashtagAuthenticity (hashtags s)
            \<le> calculateHashtagAuthenticity (hashtags (without_promotion s))"
    using hashtag_authenticity_mono [of "hashtags s"] by (simp add: without_promotion_def)
  have p: "calculateSponsoredProbability (without_promotion s) \<le> calculateSponsoredProbability s"
    by (rule sponsored_probability_mono)
  have "real_of_int (calculateHashtagAuthenticity (hashtags s))
          \<le> real_of_int (calculateHashtagAuthenticity (hashtags (without_promotion s)))"
    using h by simp
  moreover have "real_of_int (calculateSponsoredProbability (without_promotion s))
          \<le> real_of_int (calculateSponsoredProbability s)"
    using p by simp
  ultimately show ?thesis
    by (simp add: socialScore_def analyzeSocialMedia_def)
qed

lemma round_half_up_mono: "x \<le> y \<Longrightarrow> round_half_up x \<le> round_half_up y"
  by (simp add: round_half_up_def floor_mono)

lemma calculateOverallScore_mono:
  assumes "socialScore soc \<le> socialScore soc'" and "price_vs_ingredients pa \<noteq> NaN"
  shows "js_le (calculateOverallScore pd soc ia ra pa) (calculateOverallScore pd soc' ia ra pa)"
proof (cases "price_vs_ingredients pa")
  case NaN
  with assms show ?thesis by simp
next
  case PosInf
  then show ?thesis
    by (simp add: calculateOverallScore_def priceScore_def)
next
  case (Fin x)
  then show ?thesis
    using assms(1)
    by (simp add: calculateOverallScore_def priceScore_def round_half_up_mono)
qed


text \<open>Every field of a returned result, in terms of the analyses.\<close>

lemma analyzeProduct_fields:
  assumes "analyzeProduct db now p s rv = Inr res"
  shows "analyzeIngredients db (ingredients p) = Inr (ingredient_analysis res)"
    and "product_analysis res = analyzeProduct_Internal p"
    and "social_analysis res = analyzeSocialMedia s"
    and "review_analysis res = analyzeReviews rv"
    and "price_analysis res =
           analyzePrice (price p) (ingredient_quality_score (ingredient_analysis res))"
    and "reality_score res =
           calculateOverallScore (product_analysis res) (social_analysis res)
             (ingredient_analysis res) (review_analysis res) (price_analysis res)"
    and "overall_verdict res = snd (determineVerdict (reality_score res) (social_analysis res))"
    and "confidence_level res = fst (determineVerdict (reality_score res) (social_analysis res))"
    and "data_sources res = getDataSources p s rv"
    and "analysis_timestamp res = now"
  using assms
  by (auto simp: analyzeProduct_def Let_def split: sum.splits prod.splits)

text \<open>
  A price string whose first run of digits and commas has no digit parses to \<open>NaN\<close>,
  and the \<open>NaN\<close> reaches the price score and the reality score.
\<close>

lemma price_vs_ingredients_NaN_iff:
  "price_vs_ingredients (analyzePrice pr q) = NaN \<longleftrightarrow> extractNumericPrice pr = Some NaN"
proof (cases "extractNumericPrice pr")
  case None
  then show ?thesis by (simp add: analyzePrice_def)
next
  case (Some n)
  have m: "max x 1 \<noteq> 0" for x :: real
    by (simp add: max_def)
  from Some show ?thesis
    by (cases n) (simp_all add: analyzePrice_def calculatePriceIngredientRatio_def m)
qed

lemma analyzePrice_NaN:
  assumes "extractNumericPrice pr = Some NaN"
  shows "analyzePrice pr q =
           \<lparr>price_range = ''Luxury ($100+)'', value_assessment = Poor,
            price_vs_ingredients = NaN, market_comparison = Premium\<rparr>"
    and "assessPriceReasonableness pr = 30"
  using assms
  by (simp_all add: analyzePrice_def getPriceRange_def assessValueForMoney_def js_ge_def
      calculatePriceIngredientRatio_def compareToMarket_def assessPriceReasonableness_def)

lemma calculateOverallScore_NaN:
  "price_vs_ingredients pa = NaN \<Longrightarrow> calculateOverallScore pd soc ia ra pa = NaN"
  by (simp add: calculateOverallScore_def priceScore_def)

lemma reality_score_NaN:
  assumes "analyzeProduct db now p s rv = Inr res"
    and "extractNumericPrice (price p) = Some NaN"
  shows "reality_score res = NaN"
    and "price_analysis res =
           \<lparr>price_range = ''Luxury ($100+)'', value_assessment = Poor,
            price_vs_ingredients = NaN, market_comparison = Premium\<rparr>"
    and "price_reasonableness (product_analysis res) = 30"
proof -
  show pa: "price_analysis res =
           \<lparr>price_range = ''Luxury ($100+)'', value_assessment = Poor,
            price_vs_ingredients = NaN, market_comparison = Premium\<rparr>"
    using analyzeProduct_fields(5) [OF assms(1)] analyzePrice_NaN(1) [OF assms(2)] by simp
  then have "price_vs_ingredients (price_analysis res) = NaN" by simp
  then show "reality_score res = NaN"
    using analyzeProduct_fields(6) [OF assms(1)] calculateOverallScore_NaN by simp
  show "price_reasonableness (product_analysis res) = 30"
    using analyzeProduct_fields(2) [OF assms(1)] analyzePrice_NaN(2) [OF assms(2)]
    by (simp add: analyzeProduct_Internal_def)
qed

text \<open>
  Unless the price string parses to \<open>NaN\<close>, taking the promotion out of a social record
  (flag cleared, no affiliate code, spammy hashtags removed) never lowers the reality
  score.
\<close>

lemma social_penalty_monotone:
  assumes "analyzeProduct db now p (Some s) rv = Inr res"
    and "analyzeProduct db now p (Some (without_promotion s)) rv = Inr res'"
    and "extractNumericPrice (price p) \<noteq> Some NaN"
  shows "js_le (reality_score res) (reality_score res')"
proof -
  note f = analyzeProduct_fields [OF assms(1)]
  note f' = analyzeProduct_fields [OF assms(2)]
  have ia: "ingredient_analysis res' = ingredient_analysis res"
    using f(1) f'(1) by simp
  have pa: "price_analysis res' = price_analysis res"
    using f(5) f'(5) ia by simp
  have nn: "price_vs_ingredients (price_analysis res) \<noteq> NaN"
    using assms(3) f(5) price_vs_ingredients_NaN_iff by simp
  have "js_le
          (calculateOverallScore (analyzeProduct_Internal p) (analyzeSocialMedia (Some s))
             (ingredient_analysis res) (analyzeReviews rv) (price_analysis res))
          (calculateOverallScore (analyzeProduct_Internal p)
             (analyzeSocialMedia (Some (without_promotion s)))
             (ingredient_analysis res) (analyzeReviews rv) (price_analysis res))"
    using socialScore_mono nn by (rule calculateOverallScore_mono)
  then show ?thesis
    using f(2,3,4,6) f'(2,3,4,6) ia pa by simp
qed

lemma unpriced_price: "extractNumericPrice (price unpriced_product) = Some NaN"
  by (simp add: unpriced_product_def scenario1_product_def price_eval)

text \<open>
  C6 states that the reality score for a social record with the flag set is at most the
  score for the same record with the promotion taken out. The code breaks this for the
  price string \<open>N/A, sold out\<close>: the regular expression matches the lone comma,
  \<open>parseFloat\<close> of the empty string is \<open>NaN\<close>, and both reality scores are
  \<open>NaN\<close>, which is not less than or equal to anything.
\<close>

theorem social_penalty_nan_at_comma_price:
  "paid_promotion_detected scenario2_social
   \<and> (\<exists>res res'.
         analyzeProduct (Some getBuiltInIngredientData) ''2024-01-15T10:00:00.000Z''
           unpriced_product (Some scenario2_social) None = Inr res
       \<and> analyzeProduct (Some getBuiltInIngredientData) ''2024-01-15T10:00:00.000Z''
           unpriced_product (Some (without_promotion scenario2_social)) None = Inr res'
       \<and> reality_score res = NaN
       \<and> reality_score res' = NaN
       \<and> \<not> js_le (reality_score res) (reality_score res'))"
proof -
  have w: "well_shaped (Some getBuiltInIngredientData)"
    by (simp add: well_shaped_def getBuiltInIngredientData_def)
  obtain res where r: "analyzeProduct (Some getBuiltInIngredientData)
      ''2024-01-15T10:00:00.000Z'' unpriced_product (Some scenario2_social) None = Inr res"
    using analyzeProduct_returns [OF w] by blast
  obtain res' where r': "analyzeProduct (Some getBuiltInIngredientData)
      ''2024-01-15T10:00:00.000Z'' unpriced_product (Some (without_promotion scenario2_social))
      None = Inr res'"
    using analyzeProduct_returns [OF w] by blast
  have n: "reality_score res = NaN"
    using r unpriced_price by (rule reality_score_NaN(1))
  have n': "reality_score res' = NaN"
    using r' unpriced_price by (rule reality_score_NaN(1))
  have le: "\<not> js_le (reality_score res) (reality_score res')"
    by (simp add: n)
  have p: "paid_promotion_detected scenario2_social"
    by (simp add: scenario2_social_def)
  from p r r' n n' le show ?thesis
    by blast
qed

section \<open>Ranges of the scores\<close>

text \<open>
  The integer sub-scores always lie between 0 and 100; the price score and the reality
  score do unless the price string parses to \<open>NaN\<close>.
\<close>

lemma round_clamp:
  "0 \<le> round_half_up (max 0 (min 100 x))" "round_half_up (max 0 (min 100 x)) \<le> 100"
  by (simp_all add: round_half_up_def le_floor_iff floor_le_iff max_def min_def)

lemma hashtag_authenticity_range:
  "30 \<le> calculateHashtagAuthenticity tags" "calculateHashtagAuthenticity tags \<le> 85"
  by (simp_all add: calculateHashtagAuthenticity_def Let_def)

lemma sponsored_probability_range:
  "0 \<le> calculateSponsoredProbability s" "calculateSponsoredProbability s \<le> 100"
  by (simp_all add: sponsored_probability_eq)

lemma review_authenticity_range:
  "30 \<le> calculateReviewAuthenticity sb" "calculateReviewAuthenticity sb \<le> 85"
  by (simp_all add: calculateReviewAuthenticity_def Let_def)

lemma price_reasonableness_range:
  "30 \<le> assessPriceReasonableness pr" "assessPriceReasonableness pr \<le> 95"
  by (simp_all add: assessPriceReasonableness_def split: option.splits)

lemma product_analysis_range:
  "50 \<le> availability_score (analyzeProduct_Internal p)"
  "availability_score (analyzeProduct_Internal p) \<le> 90"
  "30 \<le> price_reasonableness (analyzeProduct_Internal p)"
  "price_reasonableness (analyzeProduct_Internal p) \<le> 95"
  by (simp_all add: analyzeProduct_Internal_def Let_def price_reasonableness_range)

lemma social_analysis_range:
  "30 \<le> hashtag_authenticity (analyzeSocialMedia s)"
  "hashtag_authenticity (analyzeSocialMedia s) \<le> 85"
  "0 \<le> sponsored_content_probability (analyzeSocialMedia s)"
  "sponsored_content_probability (analyzeSocialMedia s) \<le> 100"
  by (simp_all add: analyzeSocialMedia_def hashtag_authenticity_range
      sponsored_probability_range split: option.splits)

lemma quality_score_range:
  "0 \<le> calculateIngredientQualityScore b h t" "calculateIngredientQualityScore b h t \<le> 100"
  by (simp_all add: calculateIngredientQualityScore_def Let_def round_clamp)

lemma ingredient_authenticity_range:
  "0 \<le> calculateIngredientAuthenticity ings" "calculateIngredientAuthenticity ings \<le> 100"
  by (simp_all only: calculateIngredientAuthenticity_def Let_def round_clamp)

lemma ingredient_analysis_range:
  assumes "analyzeIngredients db ings = Inr ia"
  shows "0 \<le> ingredient_quality_score ia" "ingredient_quality_score ia \<le> 100"
    "0 \<le> ingredient_authenticity ia" "ingredient_authenticity ia \<le> 100"
proof -
  have "0 \<le> ingredient_quality_score ia \<and> ingredient_quality_score ia \<le> 100
        \<and> 0 \<le> ingredient_authenticity ia \<and> ingredient_authenticity ia \<le> 100"
  proof (cases "length (parsed ings) = 0")
    case True
    with assms have "ia = \<lparr>total_ingredients = 0, beneficial_ingredients = [],
        potentially_harmful = [], ingredient_quality_score = 0, ingredient_authenticity = 50\<rparr>"
      by (simp add: analyzeIngredients_def)
    then show ?thesis by simp
  next
    case False
    with assms obtain b h where
      "ia = \<lparr>total_ingredients = length (parsed ings),
             beneficial_ingredients = b,
             potentially_harmful = h,
             ingredient_quality_score =
               calculateIngredientQualityScore (length b) (length h) (length (parsed ings)),
             ingredient_authenticity = calculateIngredientAuthenticity ings\<rparr>"
      by (auto simp: analyzeIngredients_def split: sum.splits)
    then show ?thesis
      by (simp add: quality_score_range ingredient_authenticity_range)
  qed
  then show "0 \<le> ingredient_quality_score ia" "ingredient_quality_score ia \<le> 100"
    "0 \<le> ingredient_authenticity ia" "ingredient_authenticity ia \<le> 100"
    by simp_all
qed

lemma review_analysis_range:
  "30 \<le> review_authenticity_score (analyzeReviews rv)"
  "review_authenticity_score (analyzeReviews rv) \<le> 85"
  by (simp_all add: analyzeReviews_def noReviews_def review_authenticity_range Let_def
      split: option.splits)

lemma parseFloat_cases: "parseFloat s = NaN \<or> (\<exists>x\<ge>0. parseFloat s = Fin x)"
  by (simp add: parseFloat_def Let_def)

lemma extractNumericPrice_cases:
  "extractNumericPrice pr = None \<or> extractNumericPrice pr = Some NaN
     \<or> (\<exists>x\<ge>0. extractNumericPrice pr = Some (Fin x))"
  using parseFloat_cases by (auto simp: extractNumericPrice_def split: option.splits)

lemma price_ratio_range:
  "js_le (Fin 0) (calculatePriceIngredientRatio (Fin x) q)"
  "js_le (calculatePriceIngredientRatio (Fin x) q) (Fin 100)"
proof -
  have m: "max x 1 \<noteq> 0" by (simp add: max_def)
  show "js_le (Fin 0) (calculatePriceIngredientRatio (Fin x) q)"
    "js_le (calculatePriceIngredientRatio (Fin x) q) (Fin 100)"
    by (simp_all add: calculatePriceIngredientRatio_def m round_clamp)
qed

lemma price_analysis_range:
  assumes "extractNumericPrice pr \<noteq> Some NaN"
  shows "js_le (Fin 0) (price_vs_ingredients (analyzePrice pr q))"
    "js_le (price_vs_ingredients (analyzePrice pr q)) (Fin 100)"
  using assms extractNumericPrice_cases [of pr]
  by (auto simp: analyzePrice_def price_ratio_range)

lemma overall_score_range:
  assumes "price_vs_ingredients pa \<noteq> NaN"
  shows "js_le (Fin 0) (calculateOverallScore pd soc ia ra pa)"
    "js_le (calculateOverallScore pd soc ia ra pa) (Fin 100)"
proof -
  have "js_le (Fin 0) (calculateOverallScore pd soc ia ra pa)
        \<and> js_le (calculateOverallScore pd soc ia ra pa) (Fin 100)"
  proof (cases "price_vs_ingredients pa")
    case NaN
    with assms show ?thesis by simp
  next
    case PosInf
    then show ?thesis
      by (simp add: calculateOverallScore_def priceScore_def round_half_up_def)
  next
    case (Fin x)
    then show ?thesis
      by (simp add: calculateOverallScore_def priceScore_def round_clamp)
  qed
  then show "js_le (Fin 0) (calculateOverallScore pd soc ia ra pa)"
    "js_le (calculateOverallScore pd soc ia ra pa) (Fin 100)"
    by simp_all
qed

lemma scores_in_range:
  assumes "analyzeProduct db now p s rv = Inr res"
  shows "0 \<le> availability_score (product_analysis res)
       \<and> availability_score (product_analysis res) \<le> 100
       \<and> 0 \<le> price_reasonableness (product_analysis res)
       \<and> price_reasonableness (product_analysis res) \<le> 100
       \<and> 0 \<le> hashtag_authenticity (social_analysis res)
       \<and> hashtag_authenticity (social_analysis res) \<le> 100
       \<and> 0 \<le> sponsored_content_probability (social_analysis res)
       \<and> sponsored_content_probability (social_analysis res) \<le> 100
       \<and> 0 \<le> ingredient_quality_score (ingredient_analysis res)
       \<and> ingredient_quality_score (ingredient_analysis res) \<le> 100
       \<and> 0 \<le> ingredient_authenticity (ingredient_analysis res)
       \<and> ingredient_authenticity (ingredient_analysis res) \<le> 100
       \<and> 0 \<le> review_authenticity_score (review_analysis res)
       \<and> review_authenticity_score (review_analysis res) \<le> 100"
proof -
  note f = analyzeProduct_fields [OF assms]
  note i = ingredient_analysis_range [OF f(1)]
  show ?thesis
    using product_analysis_range [of p] social_analysis_range [of s]
      review_analysis_range [of rv] i
    unfolding f(2,3,4) by linarith
qed

lemma number_scores_in_range:
  assumes "analyzeProduct db now p s rv = Inr res"
    and "extractNumericPrice (price p) \<noteq> Some NaN"
  shows "js_le (Fin 0) (price_vs_ingredients (price_analysis res))
       \<and> js_le (price_vs_ingredients (price_analysis res)) (Fin 100)
       \<and> js_le (Fin 0) (reality_score res)
       \<and> js_le (reality_score res) (Fin 100)"
proof -
  note f = analyzeProduct_fields [OF assms(1)]
  have nn: "price_vs_ingredients (price_analysis res) \<noteq> NaN"
    using assms(2) f(5) price_vs_ingredients_NaN_iff by simp
  show ?thesis
    using price_analysis_range [OF assms(2)] overall_score_range [OF nn]
    unfolding f(5) f(6) by simp
qed

text \<open>
  C8 states that the reality score and every numeric sub-score lie between 0 and 100. The
  code breaks this for the price string \<open>N/A, sold out\<close>: \<open>price_vs_ingredients\<close>
  and the reality score are \<open>NaN\<close>, for which neither bound holds.
\<close>

theorem reality_score_nan_at_comma_price:
  "\<exists>res. analyzeProduct (Some getBuiltInIngredientData) ''2024-01-15T10:00:00.000Z''
           unpriced_product None None = Inr res
       \<and> price_vs_ingredients (price_analysis res) = NaN
       \<and> reality_score res = NaN
       \<and> \<not> js_le (Fin 0) (reality_score res)
       \<and> \<not> js_le (reality_score res) (Fin 100)"
proof -
  have w: "well_shaped (Some getBuiltInIngredientData)"
    by (simp add: well_shaped_def getBuiltInIngredientData_def)
  obtain res where r: "analyzeProduct (Some getBuiltInIngredientData)
      ''2024-01-15T10:00:00.000Z'' unpriced_product None None = Inr res"
    using analyzeProduct_returns [OF w] by blast
  note n = reality_score_NaN [OF r unpriced_price]
  have "price_vs_ingredients (price_analysis res) = NaN"
    by (simp add: n(2))
  moreover have "\<not> js_le (Fin 0) (reality_score res)" "\<not> js_le (reality_score res) (Fin 100)"
    by (simp_all add: n(1))
  ultimately show ?thesis
    using r n(1) by blast
qed


section \<open>Missing inputs\<close>

text \<open>
  What the engine puts in place of a missing input: a price string without any digit or
  comma, an absent social record or review summary, an empty ingredient list. A database
  that lacks one of its two lists makes the engine raise as soon as the product has an
  ingredient.
\<close>

lemma price_match_None_iff:
  "price_match pr = None \<longleftrightarrow> (\<forall>c\<in>set pr. \<not> digit_or_comma c)"
  by (induction pr) auto

lemma unparsed_price_defaults:
  assumes "price_match pr = None"
  shows "analyzePrice pr q =
           \<lparr>price_range = pr, value_assessment = Unknown_value,
            price_vs_ingredients = Fin 50, market_comparison = Market_rate\<rparr>"
    and "assessPriceReasonableness pr = 50"
  using assms
  by (simp_all add: analyzePrice_def assessPriceReasonableness_def extractNumericPrice_def)

lemma absent_inputs_defaults:
  "analyzeSocialMedia None =
     \<lparr>has_social_data = False, promotional_detected = False, affiliate_codes_found = 0,
      hashtag_authenticity = 50, influencer_credibility = Cred_unknown,
      sponsored_content_probability = 0\<rparr>"
  "analyzeReviews None =
     \<lparr>review_count = 0,
      sentiment_distribution = \<lparr>positive = 0, negative = 0, neutral = 0\<rparr>,
      review_authenticity_score = 50, common_concerns = [], review_credibility = Low\<rparr>"
  "socialScore (analyzeSocialMedia None) = 75"
  "reviewScore (analyzeReviews None) = 75"
  by (simp_all add: analyzeSocialMedia_def analyzeReviews_def noReviews_def socialScore_def
      reviewScore_def)

lemma empty_ingredients_defaults:
  assumes "parsed ings = []"
  shows "analyzeIngredients db ings =
           Inr \<lparr>total_ingredients = 0, beneficial_ingredients = [], potentially_harmful = [],
                ingredient_quality_score = 0, ingredient_authenticity = 50\<rparr>"
  using assms by (simp add: analyzeIngredients_def)

lemma missing_list_raises:
  assumes "db_beneficial d = None \<or> db_potentially_harmful d = None"
    and "parsed (ingredients p) \<noteq> []"
  shows "analyzeProduct (Some d) now p s rv = Inl TypeError"
proof -
  have "analyzeIngredients (Some d) (ingredients p) = Inl TypeError"
    using assms
    by (auto simp: analyzeIngredients_def findBeneficialIngredients_def
        findHarmfulIngredients_def split: option.splits)
  then show ?thesis
    by (simp add: analyzeProduct_def)
qed

text \<open>
  C9 states that the engine replaces every missing input by its neutral default and fills
  every field with a well-defined value, a price string without a numeric token included.
  The code breaks this for the price string \<open>N/A, sold out\<close>, which has no digit: the
  price analysis is not the default one (the string itself, unknown value, 50, market
  rate) but Luxury, poor value, \<open>NaN\<close> and premium, the price reasonableness is 30
  instead of 50, and the reality score is \<open>NaN\<close>.
\<close>

theorem comma_price_not_defaulted:
  "filter is_digit (price unpriced_product) = []
   \<and> (\<exists>res. analyzeProduct (Some getBuiltInIngredientData) ''2024-01-15T10:00:00.000Z''
               unpriced_product None None = Inr res
            \<and> price_analysis res =
                \<lparr>price_range = ''Luxury ($100+)'', value_assessment = Poor,
                 price_vs_ingredients = NaN, market_comparison = Premium\<rparr>
            \<and> price_analysis res \<noteq>
                \<lparr>price_range = price unpriced_product, value_assessment = Unknown_value,
                 price_vs_ingredients = Fin 50, market_comparison = Market_rate\<rparr>
            \<and> price_reasonableness (product_analysis res) = 30
            \<and> reality_score res = NaN)"
proof -
  have d: "filter is_digit (price unpriced_product) = []"
    by (simp add: unpriced_product_def scenario1_product_def is_digit_def)
  have w: "well_shaped (Some getBuiltInIngredientData)"
    by (simp add: well_shaped_def getBuiltInIngredientData_def)
  obtain res where r: "analyzeProduct (Some getBuiltInIngredientData)
      ''2024-01-15T10:00:00.000Z'' unpriced_product None None = Inr res"
    using analyzeProduct_returns [OF w] by blast
  note n = reality_score_NaN [OF r unpriced_price]
  have "price_analysis res \<noteq>
          \<lparr>price_range = price unpriced_product, value_assessment = Unknown_value,
           price_vs_ingredients = Fin 50, market_comparison = Market_rate\<rparr>"
    by (simp add: n(2))
  with d r n show ?thesis
    by blast
qed

end
